theory Spec2Isabelle
  imports Complex_Main
begin

section \<open>Python values\<close>

text \<open>
  The exceptions that \<^verbatim>\<open>observability/metrics.py\<close> can raise: the two
  \<^verbatim>\<open>RuntimeError\<close>s (instrument not created, metrics not initialized), the
  \<^verbatim>\<open>ValueError\<close> of \<^verbatim>\<open>CounterMetric.record\<close>, the
  \<^verbatim>\<open>OverflowError\<close> of the builtin \<^verbatim>\<open>float\<close>, the \<^verbatim>\<open>KeyError\<close> of
  deleting a key that a dictionary does not have, and the \<^verbatim>\<open>AttributeError\<close> of a
  method call on \<^verbatim>\<open>None\<close>. Each carries its message.
\<close>

datatype pyexc =
    RuntimeError string
  | ValueError string
  | OverflowError string
  | KeyError string
  | AttributeError string

text \<open>
  A measurement value is \<^verbatim>\<open>Union[int, float]\<close>. A Python \<^verbatim>\<open>int\<close> is unbounded; a
  finite \<^verbatim>\<open>float\<close> is represented by the real number it denotes (infinities and NaN
  are outside the model).
\<close>

datatype pynum = PInt int | PFloat real

fun num_val :: "pynum \<Rightarrow> real" where
  "num_val (PInt n) = of_int n"
| "num_val (PFloat x) = x"

text \<open>The comparison \<^verbatim>\<open>value < 0\<close>.\<close>

fun lt_zero :: "pynum \<Rightarrow> bool" where
  "lt_zero (PInt n) = (n < 0)"
| "lt_zero (PFloat x) = (x < 0)"

text \<open>\<^verbatim>\<open>int.bit_length()\<close> of a magnitude.\<close>

function bit_length :: "nat \<Rightarrow> nat" where
  "bit_length n = (if n = 0 then 0 else Suc (bit_length (n div 2)))"
  by pat_completeness auto
termination
  by (relation "measure id") auto

declare bit_length.simps [simp del]

text \<open>
  The builtin \<^verbatim>\<open>float(n)\<close> on an \<^verbatim>\<open>int\<close>: the magnitude is rounded to 53
  significant bits, ties to even, and a result that reaches \<open>2 ^ 1024\<close> raises
  \<^verbatim>\<open>OverflowError\<close>.
\<close>

definition round_to_53_bits :: "nat \<Rightarrow> nat" where
  "round_to_53_bits a =
     (let k = bit_length a - 53;
          q = a div 2 ^ k;
          r = a mod 2 ^ k
      in (if 2 ^ k < 2 * r \<or> (2 * r = 2 ^ k \<and> odd q) then q + 1 else q) * 2 ^ k)"

definition float_of_int :: "int \<Rightarrow> pyexc + real" where
  "float_of_int n =
     (let m = round_to_53_bits (nat \<bar>n\<bar>)
      in if 2 ^ 1024 \<le> m then Inl (OverflowError ''int too large to convert to float'')
         else Inr (if n < 0 then - real m else real m))"

text \<open>The builtin \<^verbatim>\<open>float(value)\<close>: a float is returned as it is.\<close>

fun py_float :: "pynum \<Rightarrow> pyexc + real" where
  "py_float (PInt n) = float_of_int n"
| "py_float (PFloat x) = Inr x"

text \<open>
  An attribute dictionary \<^verbatim>\<open>Dict[str, Any]\<close>; the argument is
  \<^verbatim>\<open>Optional[...]\<close>, and \<^verbatim>\<open>attributes or {}\<close> turns \<^verbatim>\<open>None\<close> (and the empty
  dictionary, which is falsy) into the empty dictionary.
\<close>

type_synonym 'v attributes = "string \<rightharpoonup> 'v"

definition or_empty :: "'v attributes option \<Rightarrow> 'v attributes" where
  "or_empty attributes = (case attributes of None \<Rightarrow> Map.empty | Some d \<Rightarrow> if d = Map.empty then Map.empty else d)"

text \<open>
  The values that \<^verbatim>\<open>float\<close> returns unchanged in magnitude: every float, and every
  \<^verbatim>\<open>int\<close> of magnitude at most \<open>2 ^ 53\<close>.
\<close>

definition representable :: "pynum \<Rightarrow> bool" where
  "representable v = (case v of PInt n \<Rightarrow> \<bar>n\<bar> \<le> 2 ^ 53 | PFloat x \<Rightarrow> True)"

type_synonym addr = nat

section \<open>The telemetry pipeline behind the wrapper\<close>

text \<open>
  Instrument creation, aggregation and export are delegated to the telemetry SDK, which
  is not part of the repository. The definitions of this section are modelled from the
  specification's data model (section 3), Aggregation Buffer (4.2) and Exporter
  Scheduler (4.3).
\<close>

text \<open>Modelled from the spec: the kind of an Instrument, one of Counter, Histogram, Gauge and
  UpDownCounter; the SDK's instrument classes are missing.\<close>

datatype instrument_kind = Counter | Histogram | Gauge | UpDownCounter

text \<open>Modelled from the spec: the Instrument of the data model, \<open>{name, description, unit, kind}\<close>;
  the SDK's instrument classes are missing.\<close>

record Instrument =
  i_name :: string
  i_description :: string
  i_unit :: string
  i_kind :: instrument_kind

text \<open>Modelled from the spec: the accumulated state of an AggregatedSeries (running sum for
  Counter and UpDownCounter, the recorded values since the last export for Histogram); the SDK's
  aggregations are missing.\<close>

datatype agg = Sum real | Samples "real list"

type_synonym 'v series = "Instrument \<times> 'v attributes \<times> agg"

text \<open>Modelled from the spec: what a snapshot reports for a series (a sum, a gauge's value,
  or \<open>{count, sum, min, max}\<close> of a histogram); the SDK's data points are missing.\<close>

datatype point = SumPoint real | GaugePoint real | HistPoint nat real "real option" "real option"

type_synonym 'v reported = "Instrument \<times> 'v attributes \<times> point"

text \<open>Modelled from the spec: the states of the Exporter Scheduler (4.3). The scheduler starts its
  timer on construction, so the state before Running is not observable; a tick in progress
  is not a state of this sequential model. The SDK's periodic reader is missing.\<close>

datatype sched_state = Running | Stopped

text \<open>Modelled from the spec: the pipeline state owned by the SDK's meter provider, which is
  missing: the Aggregation Buffer (series in creation order), the callbacks of observable
  gauges (the address of the object whose current value is observed), the Exporter
  Scheduler's state, and the batches handed to the Sink, oldest first.\<close>

record 'v pipeline =
  resource :: "(string \<times> string) list"
  buffer :: "'v series list"
  callbacks :: "(Instrument \<times> addr) list"
  scheduler :: sched_state
  handed :: "'v reported list list"

text \<open>Modelled from the spec: the kind-specific fold of a measurement into a series state
  (4.2 and section 3); the SDK's aggregation is missing.\<close>

fun init_agg :: "instrument_kind \<Rightarrow> real \<Rightarrow> agg" where
  "init_agg Histogram x = Samples [x]"
| "init_agg k x = Sum x"

fun fold_agg :: "agg \<Rightarrow> real \<Rightarrow> agg" where
  "fold_agg (Sum s) x = Sum (s + x)"
| "fold_agg (Samples xs) x = Samples (xs @ [x])"

text \<open>Modelled from the spec: every successful record updates exactly one AggregatedSeries,
  the one of the instrument and the attribute set, created at its first measurement; the
  SDK's measurement consumer is missing.\<close>

fun fold_measurement :: "Instrument \<Rightarrow> 'v attributes \<Rightarrow> real \<Rightarrow> 'v series list \<Rightarrow> 'v series list" where
  "fold_measurement i a x [] = [(i, a, init_agg (i_kind i) x)]"
| "fold_measurement i a x ((j, b, s) # ss) =
     (if j = i \<and> b = a then (j, b, fold_agg s x) # ss
      else (j, b, s) # fold_measurement i a x ss)"

fun series_state :: "'v series list \<Rightarrow> Instrument \<Rightarrow> 'v attributes \<Rightarrow> agg option" where
  "series_state [] i a = None"
| "series_state ((j, b, s) # ss) i a = (if j = i \<and> b = a then Some s else series_state ss i a)"

text \<open>Modelled from the spec: the snapshot value of a series state (4.2).\<close>

definition list_min :: "real list \<Rightarrow> real option" where
  "list_min xs = (case xs of [] \<Rightarrow> None | y # ys \<Rightarrow> Some (fold min ys y))"

definition list_max :: "real list \<Rightarrow> real option" where
  "list_max xs = (case xs of [] \<Rightarrow> None | y # ys \<Rightarrow> Some (fold max ys y))"

fun point_of :: "agg \<Rightarrow> point" where
  "point_of (Sum s) = SumPoint s"
| "point_of (Samples xs) = HistPoint (length xs) (sum_list xs) (list_min xs) (list_max xs)"

text \<open>Modelled from the spec: the reset after an export (4.2): sums are cumulative and stay,
  a histogram's sample list is cleared.\<close>

fun reset_agg :: "agg \<Rightarrow> agg" where
  "reset_agg (Sum s) = Sum s"
| "reset_agg (Samples xs) = Samples []"

section \<open>The metric classes\<close>

text \<open>
  \<^verbatim>\<open>BaseMetric\<close> with its four fields; \<^verbatim>\<open>_instrument\<close> is \<^verbatim>\<open>None\<close> until
  \<^verbatim>\<open>create_instrument\<close> has run. \<^verbatim>\<open>GaugeMetric\<close> extends it by
  \<^verbatim>\<open>_current_value\<close>.
\<close>

record BaseMetric =
  name :: string
  description :: string
  unit :: string
  instrument :: "Instrument option"

record GaugeMetric = BaseMetric +
  current_value :: real

definition BaseMetric_init :: "string \<Rightarrow> string \<Rightarrow> string \<Rightarrow> BaseMetric" where
  "BaseMetric_init nm d u = \<lparr>name = nm, description = d, unit = u, instrument = None\<rparr>"

definition GaugeMetric_init :: "string \<Rightarrow> string \<Rightarrow> string \<Rightarrow> GaugeMetric" where
  "GaugeMetric_init nm d u =
     \<lparr>name = nm, description = d, unit = u, instrument = None, current_value = 0\<rparr>"

text \<open>An object on the heap is an instance of one of the four concrete classes.\<close>

datatype metric_obj =
    CounterObj BaseMetric
  | HistogramObj BaseMetric
  | GaugeObj GaugeMetric
  | UpDownCounterObj BaseMetric

text \<open>
  The program state: metric objects and dictionary objects by address (a dictionary maps
  a name to the address of a metric object; an address that holds no dictionary reads as
  the empty one), the next free address, and the process-wide meter provider that
  \<^verbatim>\<open>metrics.set_meter_provider\<close> installs (\<^verbatim>\<open>None\<close> before \<^verbatim>\<open>setup\<close>).
\<close>

record 'v world =
  metric_objs :: "addr \<rightharpoonup> metric_obj"
  dict_objs :: "addr \<Rightarrow> (string \<rightharpoonup> addr)"
  next_addr :: addr
  provider :: "'v pipeline option"

definition empty_world :: "'v world" where
  "empty_world = \<lparr>metric_objs = Map.empty, dict_objs = (\<lambda>_. Map.empty), next_addr = 0, provider = None\<rparr>"

text \<open>Modelled from the spec: \<^verbatim>\<open>add\<close> and \<^verbatim>\<open>record\<close> of an SDK instrument fold the
  measurement into the Aggregation Buffer; they do not raise. The SDK's instruments are
  missing.\<close>

definition sdk_measure :: "Instrument \<Rightarrow> pynum \<Rightarrow> 'v attributes \<Rightarrow> 'v world \<Rightarrow> 'v world" where
  "sdk_measure i v a w =
     (case provider w of
        None \<Rightarrow> w
      | Some p \<Rightarrow> w\<lparr>provider := Some (p\<lparr>buffer := fold_measurement i a (num_val v) (buffer p)\<rparr>)\<rparr>)"

text \<open>Modelled from the spec: creating an observable gauge registers its callback with the
  pipeline; the SDK's meter is missing.\<close>

definition sdk_register_callback :: "Instrument \<Rightarrow> addr \<Rightarrow> 'v world \<Rightarrow> 'v world" where
  "sdk_register_callback i self w =
     (case provider w of
        None \<Rightarrow> w
      | Some p \<Rightarrow> w\<lparr>provider := Some (p\<lparr>callbacks := callbacks p @ [(i, self)]\<rparr>)\<rparr>)"

subsection \<open>CounterMetric, HistogramMetric, UpDownCounterMetric\<close>

text \<open>
  The meter that \<^verbatim>\<open>metrics.get_meter(__name__)\<close> returns, by its name.
  \<^verbatim>\<open>create_instrument\<close> stores the instrument that the meter creates from the metric's
  name, description and unit.
\<close>

datatype meter = Meter string

definition new_instrument :: "instrument_kind \<Rightarrow> 'a BaseMetric_scheme \<Rightarrow> Instrument" where
  "new_instrument k m = \<lparr>i_name = name m, i_description = description m, i_unit = unit m, i_kind = k\<rparr>"

definition CounterMetric_create_instrument :: "BaseMetric \<Rightarrow> meter \<Rightarrow> BaseMetric" where
  "CounterMetric_create_instrument self m = self\<lparr>instrument := Some (new_instrument Counter self)\<rparr>"

definition HistogramMetric_create_instrument :: "BaseMetric \<Rightarrow> meter \<Rightarrow> BaseMetric" where
  "HistogramMetric_create_instrument self m = self\<lparr>instrument := Some (new_instrument Histogram self)\<rparr>"

definition UpDownCounterMetric_create_instrument :: "BaseMetric \<Rightarrow> meter \<Rightarrow> BaseMetric" where
  "UpDownCounterMetric_create_instrument self m = self\<lparr>instrument := Some (new_instrument UpDownCounter self)\<rparr>"

text \<open>
  \<^verbatim>\<open>record\<close> returns the exception it raises, if any, and the state after the call.
\<close>

definition CounterMetric_record ::
  "BaseMetric \<Rightarrow> pynum \<Rightarrow> 'v attributes option \<Rightarrow> 'v world \<Rightarrow> pyexc option \<times> 'v world" where
  "CounterMetric_record self v attributes w =
     (case instrument self of
        None \<Rightarrow> (Some (RuntimeError (''Instrument not created for metric '' @ name self)), w)
      | Some i \<Rightarrow>
          if lt_zero v then (Some (ValueError ''Counter values must be non-negative''), w)
          else (None, sdk_measure i v (or_empty attributes) w))"

definition HistogramMetric_record ::
  "BaseMetric \<Rightarrow> pynum \<Rightarrow> 'v attributes option \<Rightarrow> 'v world \<Rightarrow> pyexc option \<times> 'v world" where
  "HistogramMetric_record self v attributes w =
     (case instrument self of
        None \<Rightarrow> (Some (RuntimeError (''Instrument not created for metric '' @ name self)), w)
      | Some i \<Rightarrow> (None, sdk_measure i v (or_empty attributes) w))"

definition UpDownCounterMetric_record ::
  "BaseMetric \<Rightarrow> pynum \<Rightarrow> 'v attributes option \<Rightarrow> 'v world \<Rightarrow> pyexc option \<times> 'v world" where
  "UpDownCounterMetric_record self v attributes w =
     (case instrument self of
        None \<Rightarrow> (Some (RuntimeError (''Instrument not created for metric '' @ name self)), w)
      | Some i \<Rightarrow> (None, sdk_measure i v (or_empty attributes) w))"

subsection \<open>GaugeMetric\<close>

text \<open>
  \<^verbatim>\<open>record\<close> assigns \<^verbatim>\<open>float(value)\<close> to \<^verbatim>\<open>_current_value\<close> and does not read
  \<^verbatim>\<open>attributes\<close>; when \<^verbatim>\<open>float\<close> raises, the assignment does not happen.
\<close>

definition GaugeMetric_record ::
  "GaugeMetric \<Rightarrow> pynum \<Rightarrow> 'v attributes option \<Rightarrow> pyexc option \<times> GaugeMetric" where
  "GaugeMetric_record self v attributes =
     (case py_float v of
        Inl e \<Rightarrow> (Some e, self)
      | Inr x \<Rightarrow> (None, self\<lparr>current_value := x\<rparr>))"


text \<open>
  The callback \<^verbatim>\<open>get_current_value\<close> that \<^verbatim>\<open>create_instrument\<close> hands to the
  observable gauge: one observation, \<^verbatim>\<open>metrics.Observation(self._current_value)\<close>,
  which is given no attributes.
\<close>

datatype observation = Observation real

definition get_current_value :: "GaugeMetric \<Rightarrow> observation list" where
  "get_current_value self = [Observation (current_value self)]"

definition GaugeMetric_create_instrument ::
  "addr \<Rightarrow> GaugeMetric \<Rightarrow> meter \<Rightarrow> 'v world \<Rightarrow> GaugeMetric \<times> 'v world" where
  "GaugeMetric_create_instrument self_addr self m w =
     (let i = new_instrument Gauge self
      in (self\<lparr>instrument := Some i\<rparr>, sdk_register_callback i self_addr w))"

section \<open>Snapshot, export and shutdown of the pipeline\<close>

text \<open>Modelled from the spec: \<open>snapshot()\<close> of the Aggregation Buffer (4.2), an ordered
  sequence of series with their aggregated values; a gauge reports what its callback observes.
  The SDK's metric reader is missing.\<close>

definition observe :: "'v world \<Rightarrow> Instrument \<times> addr \<Rightarrow> 'v reported list" where
  "observe w cb =
     (case metric_objs w (snd cb) of
        Some (GaugeObj g) \<Rightarrow>
          map (\<lambda>ob. case ob of Observation x \<Rightarrow> (fst cb, Map.empty, GaugePoint x)) (get_current_value g)
      | _ \<Rightarrow> [])"

definition snapshot :: "'v world \<Rightarrow> 'v reported list" where
  "snapshot w =
     (case provider w of
        None \<Rightarrow> []
      | Some p \<Rightarrow> map (\<lambda>(i, a, s). (i, a, point_of s)) (buffer p) @ concat (map (observe w) (callbacks p)))"

fun reported_value :: "'v reported list \<Rightarrow> Instrument \<Rightarrow> 'v attributes \<Rightarrow> point option" where
  "reported_value [] i a = None"
| "reported_value ((j, b, x) # rs) i a = (if j = i \<and> b = a then Some x else reported_value rs i a)"

text \<open>Modelled from the spec: the accumulated state of one series in the Aggregation
  Buffer, if the series exists.\<close>

definition series_of :: "'v world \<Rightarrow> Instrument \<Rightarrow> 'v attributes \<Rightarrow> agg option" where
  "series_of w i a = (case provider w of None \<Rightarrow> None | Some p \<Rightarrow> series_state (buffer p) i a)"

text \<open>Modelled from the spec: an export (4.3) hands the snapshot to the Sink and resets the
  buffer by kind; the scheduler's tick exports while it is running; \<open>stop()\<close> performs one
  final export and transitions to Stopped, and is a no-op once stopped. The SDK's periodic
  reader and \<^verbatim>\<open>MeterProvider.shutdown\<close> are missing.\<close>

definition export_batch :: "'v world \<Rightarrow> 'v world" where
  "export_batch w =
     (case provider w of
        None \<Rightarrow> w
      | Some p \<Rightarrow>
          w\<lparr>provider := Some (p\<lparr>handed := handed p @ [snapshot w],
                                 buffer := map (\<lambda>(i, a, s). (i, a, reset_agg s)) (buffer p)\<rparr>)\<rparr>)"

definition tick :: "'v world \<Rightarrow> 'v world" where
  "tick w =
     (case provider w of
        None \<Rightarrow> w
      | Some p \<Rightarrow> if scheduler p = Running then export_batch w else w)"

definition provider_shutdown :: "'v world \<Rightarrow> 'v world" where
  "provider_shutdown w =
     (case provider w of
        None \<Rightarrow> w
      | Some p \<Rightarrow>
          if scheduler p = Stopped then w
          else (let w' = export_batch w
                in w'\<lparr>provider := map_option (\<lambda>q. q\<lparr>scheduler := Stopped\<rparr>) (provider w')\<rparr>))"

section \<open>MetricsManager\<close>

record ObservabilityConfig =
  service_name :: string
  service_version :: string
  environment :: string
  otlp_endpoint :: string

definition to_resource_attributes :: "ObservabilityConfig \<Rightarrow> (string \<times> string) list" where
  "to_resource_attributes self =
     [(''service.name'', service_name self),
      (''service.version'', service_version self),
      (''deployment.environment'', environment self)]"

text \<open>
  The manager's fields. \<^verbatim>\<open>_meter_provider\<close> and \<^verbatim>\<open>_meter\<close> are \<^verbatim>\<open>None\<close>
  until \<^verbatim>\<open>setup\<close>; \<^verbatim>\<open>_metrics\<close> is a reference to a dictionary object.
\<close>

datatype provider_ref = MeterProvider

record MetricsManager =
  config :: ObservabilityConfig
  meter_provider :: "provider_ref option"
  meter :: "meter option"
  metrics :: addr

definition alloc_dict :: "(string \<rightharpoonup> addr) \<Rightarrow> 'v world \<Rightarrow> addr \<times> 'v world" where
  "alloc_dict d w =
     (next_addr w, w\<lparr>dict_objs := (dict_objs w)(next_addr w := d), next_addr := Suc (next_addr w)\<rparr>)"

definition alloc_metric :: "metric_obj \<Rightarrow> 'v world \<Rightarrow> addr \<times> 'v world" where
  "alloc_metric m w =
     (next_addr w, w\<lparr>metric_objs := (metric_objs w)(next_addr w \<mapsto> m), next_addr := Suc (next_addr w)\<rparr>)"

definition store_metric :: "addr \<Rightarrow> metric_obj \<Rightarrow> 'v world \<Rightarrow> 'v world" where
  "store_metric a m w = w\<lparr>metric_objs := (metric_objs w)(a \<mapsto> m)\<rparr>"

text \<open>The dictionary operations \<^verbatim>\<open>d[k] = x\<close>, \<^verbatim>\<open>del d[k]\<close> and \<^verbatim>\<open>d.clear()\<close>.\<close>

definition dict_setitem :: "addr \<Rightarrow> string \<Rightarrow> addr \<Rightarrow> 'v world \<Rightarrow> 'v world" where
  "dict_setitem d k x w = w\<lparr>dict_objs := (dict_objs w)(d := (dict_objs w d)(k \<mapsto> x))\<rparr>"

definition dict_delitem :: "addr \<Rightarrow> string \<Rightarrow> 'v world \<Rightarrow> pyexc option \<times> 'v world" where
  "dict_delitem d k w =
     (case dict_objs w d k of
        None \<Rightarrow> (Some (KeyError k), w)
      | Some x \<Rightarrow> (None, w\<lparr>dict_objs := (dict_objs w)(d := (dict_objs w d)(k := None))\<rparr>))"

definition dict_clear :: "addr \<Rightarrow> 'v world \<Rightarrow> 'v world" where
  "dict_clear d w = w\<lparr>dict_objs := (dict_objs w)(d := Map.empty)\<rparr>"

definition MetricsManager_init :: "ObservabilityConfig \<Rightarrow> 'v world \<Rightarrow> MetricsManager \<times> 'v world" where
  "MetricsManager_init cfg w =
     (let (d, w') = alloc_dict Map.empty w
      in (\<lparr>config = cfg, meter_provider = None, meter = None, metrics = d\<rparr>, w'))"

text \<open>
  The method \<^verbatim>\<open>setup\<close> (the bare name is a keyword of the theory language): it
  constructs the meter provider with its periodic reader, installs it process-wide and
  keeps the meter \<^verbatim>\<open>metrics.get_meter(__name__)\<close>. The program state has the one
  provider that is installed; a process calls \<^verbatim>\<open>setup\<close> once, as \<^verbatim>\<open>app.py\<close> does.
\<close>

definition MetricsManager_setup :: "MetricsManager \<Rightarrow> 'v world \<Rightarrow> MetricsManager \<times> 'v world" where
  "MetricsManager_setup self w =
     (self\<lparr>meter_provider := Some MeterProvider, meter := Some (Meter ''observability.metrics'')\<rparr>,
      w\<lparr>provider := Some \<lparr>resource = to_resource_attributes (config self), buffer = [],
                            callbacks = [], scheduler = Running, handed = []\<rparr>\<rparr>)"

definition get_meter :: "MetricsManager \<Rightarrow> pyexc + meter" where
  "get_meter self =
     (case meter self of
        None \<Rightarrow> Inl (RuntimeError ''Metrics not initialized. Call setup() first.'')
      | Some m \<Rightarrow> Inr m)"

text \<open>
  The four \<^verbatim>\<open>create_*\<close> methods: construct the metric object, create its instrument
  with \<^verbatim>\<open>self.get_meter()\<close> (which may raise), assign it to \<^verbatim>\<open>self._metrics[name]\<close>
  and return it. The unit, which defaults to \<^verbatim>\<open>"1"\<close> in the source, is always given.
\<close>

definition create_counter ::
  "MetricsManager \<Rightarrow> string \<Rightarrow> string \<Rightarrow> string \<Rightarrow> 'v world \<Rightarrow> (pyexc + addr) \<times> 'v world" where
  "create_counter self nm d u w =
     (let metric = BaseMetric_init nm d u;
          (a, w1) = alloc_metric (CounterObj metric) w
      in case get_meter self of
           Inl e \<Rightarrow> (Inl e, w1)
         | Inr m \<Rightarrow>
             (Inr a, dict_setitem (metrics self) nm a
                       (store_metric a (CounterObj (CounterMetric_create_instrument metric m)) w1)))"

definition create_histogram ::
  "MetricsManager \<Rightarrow> string \<Rightarrow> string \<Rightarrow> string \<Rightarrow> 'v world \<Rightarrow> (pyexc + addr) \<times> 'v world" where
  "create_histogram self nm d u w =
     (let metric = BaseMetric_init nm d u;
          (a, w1) = alloc_metric (HistogramObj metric) w
      in case get_meter self of
           Inl e \<Rightarrow> (Inl e, w1)
         | Inr m \<Rightarrow>
             (Inr a, dict_setitem (metrics self) nm a
                       (store_metric a (HistogramObj (HistogramMetric_create_instrument metric m)) w1)))"

definition create_gauge ::
  "MetricsManager \<Rightarrow> string \<Rightarrow> string \<Rightarrow> string \<Rightarrow> 'v world \<Rightarrow> (pyexc + addr) \<times> 'v world" where
  "create_gauge self nm d u w =
     (let metric = GaugeMetric_init nm d u;
          (a, w1) = alloc_metric (GaugeObj metric) w
      in case get_meter self of
           Inl e \<Rightarrow> (Inl e, w1)
         | Inr m \<Rightarrow>
             (let (metric', w2) = GaugeMetric_create_instrument a metric m w1
              in (Inr a, dict_setitem (metrics self) nm a (store_metric a (GaugeObj metric') w2))))"

definition create_up_down_counter ::
  "MetricsManager \<Rightarrow> string \<Rightarrow> string \<Rightarrow> string \<Rightarrow> 'v world \<Rightarrow> (pyexc + addr) \<times> 'v world" where
  "create_up_down_counter self nm d u w =
     (let metric = BaseMetric_init nm d u;
          (a, w1) = alloc_metric (UpDownCounterObj metric) w
      in case get_meter self of
           Inl e \<Rightarrow> (Inl e, w1)
         | Inr m \<Rightarrow>
             (Inr a, dict_setitem (metrics self) nm a
                       (store_metric a (UpDownCounterObj (UpDownCounterMetric_create_instrument metric m)) w1)))"

text \<open>\<^verbatim>\<open>self._metrics.get(name)\<close>: the metric's address, or \<^verbatim>\<open>None\<close>.\<close>

definition get_metric :: "MetricsManager \<Rightarrow> 'v world \<Rightarrow> string \<Rightarrow> addr option" where
  "get_metric self w nm = dict_objs w (metrics self) nm"

text \<open>\<^verbatim>\<open>self._metrics.copy()\<close>: a new dictionary object with the same entries.\<close>

definition list_metrics :: "MetricsManager \<Rightarrow> 'v world \<Rightarrow> addr \<times> 'v world" where
  "list_metrics self w = alloc_dict (dict_objs w (metrics self)) w"

text \<open>
  \<^verbatim>\<open>shutdown\<close> calls the provider's shutdown when \<^verbatim>\<open>_meter_provider\<close> is set; it
  assigns no field of the manager (the log line is not modelled).
\<close>

definition shutdown :: "MetricsManager \<Rightarrow> 'v world \<Rightarrow> 'v world" where
  "shutdown self w = (if meter_provider self \<noteq> None then provider_shutdown w else w)"

text \<open>
  A call \<^verbatim>\<open>metric.record(value, attributes)\<close> through a reference dispatches on the
  object's class; \<^verbatim>\<open>GaugeMetric.record\<close> updates the object in place. (An address
  that holds no object cannot arise from the \<^verbatim>\<open>create_*\<close> methods; the call then does
  nothing.)
\<close>

definition call_record ::
  "addr \<Rightarrow> pynum \<Rightarrow> 'v attributes option \<Rightarrow> 'v world \<Rightarrow> pyexc option \<times> 'v world" where
  "call_record a v attributes w =
     (case metric_objs w a of
        None \<Rightarrow> (None, w)
      | Some (CounterObj m) \<Rightarrow> CounterMetric_record m v attributes w
      | Some (HistogramObj m) \<Rightarrow> HistogramMetric_record m v attributes w
      | Some (GaugeObj g) \<Rightarrow>
          (let (e, g') = GaugeMetric_record g v attributes in (e, store_metric a (GaugeObj g') w))
      | Some (UpDownCounterObj m) \<Rightarrow> UpDownCounterMetric_record m v attributes w)"


section \<open>Sequences of calls\<close>

text \<open>
  A sequence of \<^verbatim>\<open>record\<close> calls through one reference; a call that raises is caught
  by the caller, who goes on with the state that the call left.
\<close>

fun record_calls :: "addr \<Rightarrow> (pynum \<times> 'v attributes option) list \<Rightarrow> 'v world \<Rightarrow> 'v world" where
  "record_calls a [] w = w"
| "record_calls a ((v, attrs) # cs) w = record_calls a cs (snd (call_record a v attrs w))"

text \<open>
  A sequence of \<^verbatim>\<open>record\<close> calls on one gauge object; a call that raises leaves the
  object as it was and the caller goes on.
\<close>

fun gauge_calls :: "GaugeMetric \<Rightarrow> (pynum \<times> 'v attributes option) list \<Rightarrow> GaugeMetric" where
  "gauge_calls g [] = g"
| "gauge_calls g ((v, a) # cs) = gauge_calls (snd (GaugeMetric_record g v a)) cs"

text \<open>
  A sequence of events on one counter object: \<^verbatim>\<open>record\<close> calls, interleaved with
  ticks of the export timer.
\<close>

datatype 'v event = Record pynum "'v attributes option" | Tick

fun counter_events :: "BaseMetric \<Rightarrow> 'v event list \<Rightarrow> 'v world \<Rightarrow> 'v world" where
  "counter_events c [] w = w"
| "counter_events c (Record v a # es) w = counter_events c es (snd (CounterMetric_record c v a w))"
| "counter_events c (Tick # es) w = counter_events c es (tick w)"

text \<open>The values that a sequence of events records with a given attribute set.\<close>

fun recorded :: "'v event list \<Rightarrow> 'v attributes \<Rightarrow> pynum list" where
  "recorded [] a = []"
| "recorded (Record v b # es) a = (if or_empty b = a then v # recorded es a else recorded es a)"
| "recorded (Tick # es) a = recorded es a"

fun nonneg_event :: "'v event \<Rightarrow> bool" where
  "nonneg_event (Record v a) = (\<not> lt_zero v)"
| "nonneg_event Tick = True"





text \<open>A sequence of mutations of one dictionary object.\<close>

datatype dict_op = SetItem string addr | DelItem string | Clear

fun dict_apply :: "addr \<Rightarrow> dict_op \<Rightarrow> 'v world \<Rightarrow> 'v world" where
  "dict_apply d (SetItem k x) w = dict_setitem d k x w"
| "dict_apply d (DelItem k) w = snd (dict_delitem d k w)"
| "dict_apply d Clear w = dict_clear d w"

fun dict_ops :: "addr \<Rightarrow> dict_op list \<Rightarrow> 'v world \<Rightarrow> 'v world" where
  "dict_ops d [] w = w"
| "dict_ops d (x # xs) w = dict_ops d xs (dict_apply d x w)"

section \<open>Scenarios\<close>

text \<open>The configuration with the defaults of the dataclass.\<close>

definition default_config :: ObservabilityConfig where
  "default_config =
     \<lparr>service_name = ''python-otel-example'', service_version = ''0.1.0'',
      environment = ''development'', otlp_endpoint = ''http://localhost:4317''\<rparr>"

text \<open>A manager constructed and then set up, as \<^verbatim>\<open>ObservabilityDemo.setup\<close> does; \<open>started\<close>
  does so with the default configuration in an empty program state.\<close>

definition fresh_manager :: "ObservabilityConfig \<Rightarrow> 'v world \<Rightarrow> MetricsManager \<times> 'v world" where
  "fresh_manager cfg w = (let (m, w') = MetricsManager_init cfg w in MetricsManager_setup m w')"

definition started :: "MetricsManager \<times> string world" where
  "started = fresh_manager default_config empty_world"

text \<open>
  The scenario of the specification: create the counter \<^verbatim>\<open>requests_total\<close>, record 1
  with \<^verbatim>\<open>{method: GET}\<close> three times and with \<^verbatim>\<open>{method: POST}\<close> twice.
\<close>

definition requests_total :: "(pyexc + addr) \<times> string world" where
  "requests_total =
     create_counter (fst started) ''requests_total'' ''Total number of requests'' ''1'' (snd started)"

fun record_methods :: "addr \<Rightarrow> string list \<Rightarrow> string world \<Rightarrow> string world" where
  "record_methods c [] w = w"
| "record_methods c (x # xs) w =
     record_methods c xs (snd (call_record c (PInt 1) (Some [''method'' \<mapsto> x]) w))"

definition requests_scenario :: "string world" where
  "requests_scenario =
     (case fst requests_total of
        Inl e \<Rightarrow> snd requests_total
      | Inr c \<Rightarrow> record_methods c [''GET'', ''POST'', ''GET'', ''GET'', ''POST''] (snd requests_total))"

text \<open>The same scenario, followed by \<^verbatim>\<open>shutdown\<close>.\<close>

definition after_shutdown :: "string world" where
  "after_shutdown = shutdown (fst started) requests_scenario"

text \<open>A gauge registered under a name, before the same name is created again.\<close>

definition queue_gauge :: "(pyexc + addr) \<times> string world" where
  "queue_gauge =
     create_gauge (fst started) ''queue_size'' ''Number of items in processing queue'' ''1'' (snd started)"

text \<open>The running total that a series state holds; a series that does not exist yet counts 0.\<close>

definition running_total :: "agg option \<Rightarrow> real" where
  "running_total st = (case st of Some (Sum s) \<Rightarrow> s | _ \<Rightarrow> 0)"

section \<open>Properties\<close>

subsection \<open>Conversion to float\<close>

lemma bit_length_le: "n < 2 ^ k \<Longrightarrow> bit_length n \<le> k"
proof (induction k arbitrary: n)
  case 0
  then show ?case by (simp add: bit_length.simps)
next
  case (Suc k)
  then have "n div 2 < 2 ^ k" by simp
  then have "bit_length (n div 2) \<le> k" by (rule Suc.IH)
  then show ?case by (subst bit_length.simps) simp
qed

lemma bit_length_pow2: "bit_length (2 ^ k) = Suc k"
  by (induction k) (simp_all add: bit_length.simps)

lemma round_to_53_bits_exact:
  assumes "a \<le> 2 ^ 53"
  shows "round_to_53_bits a = a"
proof (cases "a = 2 ^ 53")
  case True
  have k: "bit_length a - 53 = 1" unfolding True bit_length_pow2 by simp
  have "a div 2 * 2 = a" "a mod 2 = 0" "even (a div 2)" unfolding True by simp_all
  then show ?thesis
    unfolding round_to_53_bits_def Let_def k by simp
next
  case False
  with assms have "a < 2 ^ 53" by simp
  then have "bit_length a \<le> 53" by (rule bit_length_le)
  then have k: "bit_length a - 53 = 0" by simp
  show ?thesis
    unfolding round_to_53_bits_def Let_def k by simp
qed

lemma float_of_int_exact:
  assumes "\<bar>n\<bar> \<le> 2 ^ 53"
  shows "float_of_int n = Inr (of_int n)"
proof -
  have a: "nat \<bar>n\<bar> \<le> 2 ^ 53" using assms by (simp add: nat_le_iff)
  have "(2::nat) ^ 53 < 2 ^ 1024" by (rule power_strict_increasing) simp_all
  with a have b: "\<not> (2::nat) ^ 1024 \<le> nat \<bar>n\<bar>" by linarith
  show ?thesis
    unfolding float_of_int_def Let_def round_to_53_bits_exact [OF a] using b
    by (simp del: power_numeral)
qed

lemma bit_length_example: "bit_length 9007199254740993 = 54"
  by (simp add: bit_length.simps)

lemma round_example: "round_to_53_bits 9007199254740993 = 9007199254740992"
  unfolding round_to_53_bits_def Let_def bit_length_example by simp

lemma float_of_int_odd: "float_of_int 9007199254740993 = Inr 9007199254740992"
proof -
  have "(2::nat) ^ 53 < 2 ^ 1024" by (rule power_strict_increasing) simp_all
  then have b: "\<not> (2::nat) ^ 1024 \<le> 9007199254740992" by simp
  show ?thesis
  unfolding float_of_int_def Let_def using b by (simp add: round_example del: power_numeral)
qed

lemma round_pow2:
  assumes "53 \<le> j"
  shows "round_to_53_bits (2 ^ j) = 2 ^ j"
proof -
  have k: "bit_length (2 ^ j) - 53 = j - 52" unfolding bit_length_pow2 using assms by simp
  have j: "j = 52 + (j - 52)" using assms by simp
  have p: "(2::nat) ^ j = 2 ^ 52 * 2 ^ (j - 52)" by (subst j) (simp only: power_add)
  have q: "(2::nat) ^ j div 2 ^ (j - 52) = 2 ^ 52" unfolding p by simp
  have r: "(2::nat) ^ j mod 2 ^ (j - 52) = 0" unfolding p by simp
  have e: "even ((2::nat) ^ 52)" by simp
  show ?thesis
    unfolding round_to_53_bits_def Let_def k q r using e p by (simp del: power_numeral)
qed

lemma float_of_int_overflow:
  "float_of_int (2 ^ 1024) = Inl (OverflowError ''int too large to convert to float'')"
proof -
  have a: "nat \<bar>2 ^ 1024 :: int\<bar> = 2 ^ 1024" by (simp del: power_numeral add: nat_power_eq)
  show ?thesis
    unfolding float_of_int_def Let_def a by (simp add: round_pow2 del: power_numeral)
qed

subsection \<open>Gauge calls\<close>

lemma gauge_calls_append: "gauge_calls g (cs @ ds) = gauge_calls (gauge_calls g cs) ds"
  by (induction cs arbitrary: g) auto

lemma gauge_record_overflow:
  "GaugeMetric_record g (PInt (2 ^ 1024)) a = (Some (OverflowError ''int too large to convert to float''), g)"
  by (simp add: GaugeMetric_record_def float_of_int_overflow del: power_numeral)


lemma gauge_calls_last:
  "current_value (gauge_calls g (cs @ [(v, a)])) =
     (case py_float v of Inl e \<Rightarrow> current_value (gauge_calls g cs) | Inr x \<Rightarrow> x)"
  by (simp add: gauge_calls_append GaugeMetric_record_def split: sum.splits)

lemma gauge_calls_all_raise:
  "\<forall>u\<in>set cs. \<exists>e. py_float (fst u) = Inl e \<Longrightarrow> gauge_calls g cs = g"
  by (induction cs arbitrary: g) (auto simp: GaugeMetric_record_def)

lemma gauge_calls_last_returned:
  assumes "py_float v = Inr x" and "\<forall>u\<in>set post. \<exists>e. py_float (fst u) = Inl e"
  shows "current_value (gauge_calls g (pre @ (v, a) # post)) = x"
proof -
  have "gauge_calls g (pre @ (v, a) # post) = gauge_calls (gauge_calls g (pre @ [(v, a)])) post"
    using gauge_calls_append [of g "pre @ [(v, a)]" post] by simp
  also have "\<dots> = gauge_calls g (pre @ [(v, a)])"
    using assms(2) by (rule gauge_calls_all_raise)
  finally show ?thesis
    using gauge_calls_last [of g pre v a] assms(1) by simp
qed

lemma py_float_representable: "representable v \<Longrightarrow> py_float v = Inr (num_val v)"
  by (cases v) (simp_all add: representable_def float_of_int_exact)

subsection \<open>Attribute dictionaries\<close>

lemma or_empty_simps [simp]: "or_empty None = Map.empty" "or_empty (Some d) = d"
  by (simp_all add: or_empty_def)

lemma map_upd_same_key_eq: "(m(k \<mapsto> x) = m(k \<mapsto> y)) = (x = y)"
  by (auto dest: map_upd_eqD1)

subsection \<open>The aggregation buffer\<close>

lemma i_kind_new_instrument: "i_kind (new_instrument k c) = k"
  by (simp add: new_instrument_def)

lemma series_state_fold:
  "series_state (fold_measurement i a x ss) j b =
     (if j = i \<and> b = a
      then Some (case series_state ss i a of None \<Rightarrow> init_agg (i_kind i) x | Some s \<Rightarrow> fold_agg s x)
      else series_state ss j b)"
  by (induction ss) auto

lemma series_state_reset:
  "series_state (map (\<lambda>(i, a, s). (i, a, reset_agg s)) ss) j b = map_option reset_agg (series_state ss j b)"
  by (induction ss) auto

lemma reported_value_append:
  "reported_value (xs @ ys) i a =
     (case reported_value xs i a of None \<Rightarrow> reported_value ys i a | Some x \<Rightarrow> Some x)"
  by (induction xs) auto

lemma reported_value_points:
  "reported_value (map (\<lambda>(i, a, s). (i, a, point_of s)) ss) j b = map_option point_of (series_state ss j b)"
  by (induction ss) auto

lemma reported_value_snapshot:
  "series_of w i a = Some s \<Longrightarrow> reported_value (snapshot w) i a = Some (point_of s)"
  by (auto simp: series_of_def snapshot_def reported_value_append reported_value_points split: option.splits)

lemma snapshot_none_series:
  "provider w \<noteq> None \<Longrightarrow> reported_value (snapshot w) i a = None \<Longrightarrow> series_of w i a = None"
  by (auto simp: series_of_def snapshot_def reported_value_append reported_value_points split: option.splits)

lemma series_of_measure:
  "provider w \<noteq> None \<Longrightarrow>
   series_of (sdk_measure i v a w) j b =
     (if j = i \<and> b = a
      then Some (case series_of w i a of None \<Rightarrow> init_agg (i_kind i) (num_val v) | Some s \<Rightarrow> fold_agg s (num_val v))
      else series_of w j b)"
  by (auto simp: series_of_def sdk_measure_def series_state_fold)

lemma provider_measure: "provider w \<noteq> None \<Longrightarrow> provider (sdk_measure i v a w) \<noteq> None"
  by (auto simp: sdk_measure_def)

lemma series_of_tick: "series_of (tick w) j b = series_of w j b \<or> series_of (tick w) j b = map_option reset_agg (series_of w j b)"
  by (auto simp: series_of_def tick_def export_batch_def series_state_reset split: option.splits)

lemma series_of_tick_sum:
  "series_of w j b = None \<or> (\<exists>s. series_of w j b = Some (Sum s)) \<Longrightarrow> series_of (tick w) j b = series_of w j b"
  using series_of_tick [of w j b] by auto

lemma provider_tick: "provider w \<noteq> None \<Longrightarrow> provider (tick w) \<noteq> None"
  by (auto simp: tick_def export_batch_def)

lemma counter_events_series:
  assumes "instrument c = Some i" "i_kind i = Counter"
  shows "provider w \<noteq> None \<Longrightarrow> \<forall>e\<in>set es. nonneg_event e \<Longrightarrow>
     series_of w i a = None \<or> (\<exists>s. series_of w i a = Some (Sum s)) \<Longrightarrow>
     series_of (counter_events c es w) i a =
       (if recorded es a = [] then series_of w i a
        else Some (Sum (running_total (series_of w i a) + sum_list (map num_val (recorded es a)))))"
proof (induction es arbitrary: w)
  case Nil
  then show ?case by simp
next
  case (Cons e es)
  show ?case
  proof (cases e)
    case (Record v b)
    let ?w = "sdk_measure i v (or_empty b) w"
    have nn: "\<not> lt_zero v" using Cons.prems(2) Record by simp
    have step: "snd (CounterMetric_record c v b w) = ?w"
      using assms nn by (simp add: CounterMetric_record_def)
    have p: "provider ?w \<noteq> None" using Cons.prems(1) by (rule provider_measure)
    have st: "series_of ?w i a =
        (if or_empty b = a then Some (Sum (running_total (series_of w i a) + num_val v)) else series_of w i a)"
      using Cons.prems(1,3) assms(2)
      by (auto simp: series_of_measure running_total_def)
    have inv: "series_of ?w i a = None \<or> (\<exists>s. series_of ?w i a = Some (Sum s))"
      using st Cons.prems(3) by auto
    have "series_of (counter_events c es ?w) i a =
       (if recorded es a = [] then series_of ?w i a
        else Some (Sum (running_total (series_of ?w i a) + sum_list (map num_val (recorded es a)))))"
      using Cons.prems(2) by (intro Cons.IH [OF p _ inv]) simp
    then show ?thesis
      using Record step st by (auto simp: running_total_def)
  next
    case Tick
    have p: "provider (tick w) \<noteq> None" using Cons.prems(1) by (rule provider_tick)
    have st: "series_of (tick w) i a = series_of w i a"
      using Cons.prems(3) by (rule series_of_tick_sum)
    have "series_of (counter_events c es (tick w)) i a =
       (if recorded es a = [] then series_of (tick w) i a
        else Some (Sum (running_total (series_of (tick w) i a) + sum_list (map num_val (recorded es a)))))"
      using Cons.prems(2,3) by (intro Cons.IH [OF p]) (simp_all add: st)
    then show ?thesis using Tick st by simp
  qed
qed

lemma counter_events_reported:
  assumes "provider w \<noteq> None"
    and "reported_value (snapshot w) (new_instrument Counter c) a = None"
    and "\<forall>e\<in>set es. nonneg_event e"
    and "recorded es a \<noteq> []"
  shows "series_of (counter_events (CounterMetric_create_instrument c m) es w) (new_instrument Counter c) a
           = Some (Sum (sum_list (map num_val (recorded es a))))"
    and "reported_value (snapshot (counter_events (CounterMetric_create_instrument c m) es w))
           (new_instrument Counter c) a
         = Some (SumPoint (sum_list (map num_val (recorded es a))))"
proof -
  let ?i = "new_instrument Counter c"
  have i: "instrument (CounterMetric_create_instrument c m) = Some ?i" "i_kind ?i = Counter"
    by (simp_all add: CounterMetric_create_instrument_def new_instrument_def)
  have none: "series_of w ?i a = None"
    using assms(1,2) by (rule snapshot_none_series)
  show s: "series_of (counter_events (CounterMetric_create_instrument c m) es w) ?i a =
       Some (Sum (sum_list (map num_val (recorded es a))))"
    using counter_events_series [OF i assms(1) assms(3), of a] none assms(4)
    by (simp add: running_total_def)
  show "reported_value (snapshot (counter_events (CounterMetric_create_instrument c m) es w)) ?i a
         = Some (SumPoint (sum_list (map num_val (recorded es a))))"
    using s by (simp add: reported_value_snapshot)
qed





subsection \<open>Gauges in the snapshot\<close>

lemma call_record_gauge:
  "metric_objs w self = Some (GaugeObj g) \<Longrightarrow>
   snd (call_record self v attrs w) = store_metric self (GaugeObj (snd (GaugeMetric_record g v attrs))) w"
  by (simp add: call_record_def split: prod.splits)

lemma record_calls_gauge:
  "metric_objs w self = Some (GaugeObj g) \<Longrightarrow>
   record_calls self cs w = store_metric self (GaugeObj (gauge_calls g cs)) w"
proof (induction cs arbitrary: g w)
  case Nil
  then have "(metric_objs w)(self \<mapsto> GaugeObj g) = metric_objs w" by (simp add: map_upd_triv)
  then show ?case by (simp add: store_metric_def)
next
  case (Cons c cs)
  obtain v attrs where c: "c = (v, attrs)" by (cases c)
  let ?g = "snd (GaugeMetric_record g v attrs)"
  let ?w = "store_metric self (GaugeObj ?g) w"
  have "metric_objs ?w self = Some (GaugeObj ?g)" by (simp add: store_metric_def)
  then have "record_calls self cs ?w = store_metric self (GaugeObj (gauge_calls ?g cs)) ?w"
    by (rule Cons.IH)
  then show ?case
    using Cons.prems by (simp add: c call_record_gauge store_metric_def)
qed

lemma observe_instrument: "r \<in> set (observe w cb) \<Longrightarrow> fst r = fst cb"
  by (auto simp: observe_def get_current_value_def split: option.splits metric_obj.splits)

lemma filter_observe:
  "[r \<leftarrow> observe w cb. fst r = i] = (if fst cb = i then observe w cb else [])"
  by (auto simp: filter_empty_conv dest: observe_instrument intro: filter_True)

lemma filter_observations:
  "[r \<leftarrow> concat (map (observe w) cbs). fst r = i] = concat (map (observe w) [cb \<leftarrow> cbs. fst cb = i])"
  by (induction cbs) (simp_all add: filter_observe)

lemma filter_points:
  "[r \<leftarrow> map (\<lambda>(i, a, s). (i, a, point_of s)) ss. fst r = i] =
     map (\<lambda>(i, a, s). (i, a, point_of s)) [s \<leftarrow> ss. fst s = i]"
  by (induction ss) auto

lemma snapshot_of_instrument:
  assumes "provider w = Some p"
  shows "[r \<leftarrow> snapshot w. fst r = i] =
     map (\<lambda>(i, a, s). (i, a, point_of s)) [s \<leftarrow> buffer p. fst s = i]
       @ concat (map (observe w) [cb \<leftarrow> callbacks p. fst cb = i])"
  using assms by (simp add: snapshot_def filter_points filter_observations)

lemma gauge_snapshot:
  assumes "metric_objs w self = Some (GaugeObj g)" and "provider w = Some p"
    and "[cb \<leftarrow> callbacks p. fst cb = i] = [(i, self)]"
    and "[s \<leftarrow> buffer p. fst s = i] = []"
  shows "[r \<leftarrow> snapshot (record_calls self cs w). fst r = i] =
           [(i, Map.empty, GaugePoint (current_value (gauge_calls g cs)))]"
proof -
  let ?w = "store_metric self (GaugeObj (gauge_calls g cs)) w"
  have p: "provider ?w = Some p" using assms(2) by (simp add: store_metric_def)
  have "observe ?w (i, self) = [(i, Map.empty, GaugePoint (current_value (gauge_calls g cs)))]"
    by (simp add: observe_def store_metric_def get_current_value_def)
  then show ?thesis
    using snapshot_of_instrument [OF p, of i] assms(3,4)
    by (simp add: record_calls_gauge [OF assms(1)])
qed

subsection \<open>Two measurements\<close>

lemma snapshot_measure:
  assumes "provider w = Some p"
  shows "snapshot (sdk_measure i v a w) =
     map (\<lambda>(i, a, s). (i, a, point_of s)) (fold_measurement i a (num_val v) (buffer p))
       @ concat (map (observe w) (callbacks p))"
proof -
  have "observe (sdk_measure i v a w) = observe w"
    using assms by (simp add: fun_eq_iff observe_def sdk_measure_def)
  then show ?thesis using assms by (simp add: snapshot_def sdk_measure_def)
qed

lemma snapshot_empty:
  assumes "provider w = Some p" "snapshot w = []"
  shows "buffer p = []" "concat (map (observe w) (callbacks p)) = []"
  using assms by (simp_all add: snapshot_def)

lemma counter_record_ok:
  "\<not> lt_zero v \<Longrightarrow>
   CounterMetric_record (CounterMetric_create_instrument c m) v attributes w =
     (None, sdk_measure (new_instrument Counter c) v (or_empty attributes) w)"
  by (simp add: CounterMetric_record_def CounterMetric_create_instrument_def)

lemma two_records:
  assumes "provider w \<noteq> None" "snapshot w = []" "\<not> lt_zero v1" "\<not> lt_zero v2"
  shows "snapshot (snd (CounterMetric_record (CounterMetric_create_instrument c m) v2 a2
            (snd (CounterMetric_record (CounterMetric_create_instrument c m) v1 a1 w)))) =
     (if or_empty a1 = or_empty a2
      then [(new_instrument Counter c, or_empty a1, SumPoint (num_val v1 + num_val v2))]
      else [(new_instrument Counter c, or_empty a1, SumPoint (num_val v1)),
            (new_instrument Counter c, or_empty a2, SumPoint (num_val v2))])"
proof -
  obtain p where p: "provider w = Some p" using assms(1) by auto
  note e = snapshot_empty [OF p assms(2)]
  let ?i = "new_instrument Counter c"
  let ?w1 = "sdk_measure ?i v1 (or_empty a1) w"
  have p1: "provider ?w1 = Some (p\<lparr>buffer := [(?i, or_empty a1, Sum (num_val v1))]\<rparr>)"
    using p e by (simp add: sdk_measure_def i_kind_new_instrument)
  have o: "observe ?w1 = observe w"
    using p by (simp add: fun_eq_iff observe_def sdk_measure_def)
  show ?thesis
    using assms(3,4) e(2) o
    by (simp add: counter_record_ok snapshot_measure [OF p1] i_kind_new_instrument)
qed

subsection \<open>Shutdown of the provider\<close>

lemma provider_shutdown_idem: "provider_shutdown (provider_shutdown w) = provider_shutdown w"
  by (auto simp: provider_shutdown_def export_batch_def Let_def split: option.splits)



subsection \<open>The registry\<close>

lemma create_counter_ok:
  assumes "meter self = Some m"
  shows "fst (create_counter self nm d u w) = Inr (next_addr w)"
    "get_metric self (snd (create_counter self nm d u w)) nm = Some (next_addr w)"
    "metric_objs (snd (create_counter self nm d u w)) (next_addr w) =
       Some (CounterObj (CounterMetric_create_instrument (BaseMetric_init nm d u) m))"
    "old \<noteq> next_addr w \<Longrightarrow> metric_objs (snd (create_counter self nm d u w)) old = metric_objs w old"
    "nm' \<noteq> nm \<Longrightarrow> get_metric self (snd (create_counter self nm d u w)) nm' = get_metric self w nm'"
  using assms
  by (simp_all add: create_counter_def alloc_metric_def get_meter_def store_metric_def dict_setitem_def get_metric_def)

lemma create_histogram_ok:
  assumes "meter self = Some m"
  shows "fst (create_histogram self nm d u w) = Inr (next_addr w)"
    "get_metric self (snd (create_histogram self nm d u w)) nm = Some (next_addr w)"
    "metric_objs (snd (create_histogram self nm d u w)) (next_addr w) =
       Some (HistogramObj (HistogramMetric_create_instrument (BaseMetric_init nm d u) m))"
    "old \<noteq> next_addr w \<Longrightarrow> metric_objs (snd (create_histogram self nm d u w)) old = metric_objs w old"
    "nm' \<noteq> nm \<Longrightarrow> get_metric self (snd (create_histogram self nm d u w)) nm' = get_metric self w nm'"
  using assms
  by (simp_all add: create_histogram_def alloc_metric_def get_meter_def store_metric_def dict_setitem_def get_metric_def)

lemma create_up_down_counter_ok:
  assumes "meter self = Some m"
  shows "fst (create_up_down_counter self nm d u w) = Inr (next_addr w)"
    "get_metric self (snd (create_up_down_counter self nm d u w)) nm = Some (next_addr w)"
    "metric_objs (snd (create_up_down_counter self nm d u w)) (next_addr w) =
       Some (UpDownCounterObj (UpDownCounterMetric_create_instrument (BaseMetric_init nm d u) m))"
    "old \<noteq> next_addr w \<Longrightarrow> metric_objs (snd (create_up_down_counter self nm d u w)) old = metric_objs w old"
    "nm' \<noteq> nm \<Longrightarrow> get_metric self (snd (create_up_down_counter self nm d u w)) nm' = get_metric self w nm'"
  using assms
  by (simp_all add: create_up_down_counter_def alloc_metric_def get_meter_def store_metric_def dict_setitem_def get_metric_def)

lemma register_callback_frame:
  "metric_objs (sdk_register_callback i a w) = metric_objs w"
  "dict_objs (sdk_register_callback i a w) = dict_objs w"
  "next_addr (sdk_register_callback i a w) = next_addr w"
  by (simp_all add: sdk_register_callback_def split: option.splits)

lemma create_gauge_ok:
  assumes "meter self = Some m"
  shows "fst (create_gauge self nm d u w) = Inr (next_addr w)"
    "get_metric self (snd (create_gauge self nm d u w)) nm = Some (next_addr w)"
    "metric_objs (snd (create_gauge self nm d u w)) (next_addr w) =
       Some (GaugeObj ((GaugeMetric_init nm d u)\<lparr>instrument := Some (new_instrument Gauge (GaugeMetric_init nm d u))\<rparr>))"
    "old \<noteq> next_addr w \<Longrightarrow> metric_objs (snd (create_gauge self nm d u w)) old = metric_objs w old"
    "nm' \<noteq> nm \<Longrightarrow> get_metric self (snd (create_gauge self nm d u w)) nm' = get_metric self w nm'"
  using assms
  by (simp_all add: create_gauge_def alloc_metric_def get_meter_def store_metric_def dict_setitem_def
      get_metric_def GaugeMetric_create_instrument_def Let_def register_callback_frame)








lemma dict_apply_frame:
  "metric_objs (dict_apply d x w) = metric_objs w \<and> provider (dict_apply d x w) = provider w
   \<and> next_addr (dict_apply d x w) = next_addr w
   \<and> (\<forall>d'. d' \<noteq> d \<longrightarrow> dict_objs (dict_apply d x w) d' = dict_objs w d')"
  by (cases x) (auto simp: dict_setitem_def dict_delitem_def dict_clear_def split: option.splits)

lemma dict_ops_frame:
  "metric_objs (dict_ops d xs w) = metric_objs w \<and> provider (dict_ops d xs w) = provider w
   \<and> next_addr (dict_ops d xs w) = next_addr w
   \<and> (\<forall>d'. d' \<noteq> d \<longrightarrow> dict_objs (dict_ops d xs w) d' = dict_objs w d')"
  by (induction xs arbitrary: w) (simp_all add: dict_apply_frame)

subsection \<open>The scenarios, evaluated\<close>

lemma started_eval:
  "fst started = \<lparr>config = default_config, meter_provider = Some MeterProvider,
       meter = Some (Meter ''observability.metrics''), metrics = 0\<rparr>"
  "metric_objs (snd started) = Map.empty"
  "next_addr (snd started) = 1"
  "provider (snd started) = Some \<lparr>resource = to_resource_attributes default_config, buffer = [],
                            callbacks = [], scheduler = Running, handed = []\<rparr>"
  "dict_objs (snd started) 0 = Map.empty"
  by (simp_all add: started_def fresh_manager_def MetricsManager_init_def MetricsManager_setup_def alloc_dict_def empty_world_def)

lemma started_fields:
  "meter (fst started) = Some (Meter ''observability.metrics'')"
  "meter_provider (fst started) = Some MeterProvider"
  "metrics (fst started) = 0"
  by (simp_all add: started_eval)

lemma queue_gauge_eval:
  "fst queue_gauge = Inr (Suc 0)"
  "get_metric (fst started) (snd queue_gauge) ''queue_size'' = Some (Suc 0)"
  "next_addr (snd queue_gauge) = Suc (Suc 0)"
  using create_gauge_ok(1,2) [of "fst started" "Meter ''observability.metrics''" "''queue_size''"
      "''Number of items in processing queue''" "''1''" "snd started"]
  by (simp_all add: queue_gauge_def started_fields started_eval(2-) create_gauge_def alloc_metric_def get_meter_def Let_def
      GaugeMetric_create_instrument_def store_metric_def dict_setitem_def register_callback_frame)

lemma queue_gauge_world:
  "metric_objs (snd queue_gauge) (Suc 0) =
     Some (GaugeObj ((GaugeMetric_init ''queue_size'' ''Number of items in processing queue'' ''1'')
        \<lparr>instrument := Some (new_instrument Gauge (GaugeMetric_init ''queue_size'' ''Number of items in processing queue'' ''1''))\<rparr>))"
  "provider (snd queue_gauge) =
     Some \<lparr>resource = to_resource_attributes default_config, buffer = [],
           callbacks = [(new_instrument Gauge (GaugeMetric_init ''queue_size'' ''Number of items in processing queue'' ''1''), Suc 0)],
           scheduler = Running, handed = []\<rparr>"
  by (simp_all add: queue_gauge_def started_fields started_eval(2-) create_gauge_def alloc_metric_def get_meter_def Let_def
      GaugeMetric_create_instrument_def store_metric_def dict_setitem_def sdk_register_callback_def)

lemma queue_gauge_snapshot:
  "[r \<leftarrow> snapshot (record_calls (Suc 0) cs (snd queue_gauge)).
      fst r = new_instrument Gauge (GaugeMetric_init ''queue_size'' ''Number of items in processing queue'' ''1'')] =
     [(new_instrument Gauge (GaugeMetric_init ''queue_size'' ''Number of items in processing queue'' ''1''), Map.empty,
       GaugePoint (current_value (gauge_calls
         ((GaugeMetric_init ''queue_size'' ''Number of items in processing queue'' ''1'')
            \<lparr>instrument := Some (new_instrument Gauge (GaugeMetric_init ''queue_size'' ''Number of items in processing queue'' ''1''))\<rparr>)
         cs)))]"
  by (rule gauge_snapshot [OF queue_gauge_world]) simp_all

lemma requests_total_eval:
  "fst requests_total = Inr (Suc 0)"
  "metric_objs (snd requests_total) (Suc 0) =
     Some (CounterObj (CounterMetric_create_instrument
        (BaseMetric_init ''requests_total'' ''Total number of requests'' ''1'') (Meter ''observability.metrics'')))"
  "provider (snd requests_total) = provider (snd started)"
  by (simp_all add: requests_total_def create_counter_def started_eval alloc_metric_def get_meter_def
      store_metric_def dict_setitem_def)

lemma record_methods_counter:
  "metric_objs w a = Some (CounterObj (CounterMetric_create_instrument c m)) \<Longrightarrow> provider w = Some p \<Longrightarrow>
   record_methods a xs w =
     w\<lparr>provider := Some (p\<lparr>buffer :=
        foldl (\<lambda>b x. fold_measurement (new_instrument Counter c) [''method'' \<mapsto> x] 1 b) (buffer p) xs\<rparr>)\<rparr>"
proof (induction xs arbitrary: w p)
  case Nil
  then show ?case by simp
next
  case (Cons x xs)
  let ?p = "p\<lparr>buffer := fold_measurement (new_instrument Counter c) [''method'' \<mapsto> x] 1 (buffer p)\<rparr>"
  let ?w = "w\<lparr>provider := Some ?p\<rparr>"
  have step: "snd (call_record a (PInt 1) (Some [''method'' \<mapsto> x]) w) = ?w"
    using Cons.prems by (simp add: call_record_def counter_record_ok sdk_measure_def)
  have "record_methods a xs ?w =
     ?w\<lparr>provider := Some (?p\<lparr>buffer :=
        foldl (\<lambda>b x. fold_measurement (new_instrument Counter c) [''method'' \<mapsto> x] 1 b) (buffer ?p) xs\<rparr>)\<rparr>"
    using Cons.prems by (intro Cons.IH) simp_all
  then show ?case by (simp add: step del: fun_upd_apply)
qed

lemma requests_scenario_eval:
  "provider requests_scenario =
     Some \<lparr>resource = to_resource_attributes default_config,
           buffer = [(new_instrument Counter (BaseMetric_init ''requests_total'' ''Total number of requests'' ''1''),
                        [''method'' \<mapsto> ''GET''], Sum 3),
                     (new_instrument Counter (BaseMetric_init ''requests_total'' ''Total number of requests'' ''1''),
                        [''method'' \<mapsto> ''POST''], Sum 2)],
           callbacks = [], scheduler = Running, handed = []\<rparr>"
  "metric_objs requests_scenario = metric_objs (snd requests_total)"
proof -
  let ?p = "\<lparr>resource = to_resource_attributes default_config, buffer = [],
             callbacks = [], scheduler = Running, handed = []\<rparr> :: string pipeline"
  have P: "provider (snd requests_total) = Some ?p"
    by (simp add: requests_total_eval started_eval)
  note R = record_methods_counter [OF requests_total_eval(2) P, of "[''GET'', ''POST'', ''GET'', ''GET'', ''POST'']"]
  have eq: "requests_scenario = record_methods (Suc 0) [''GET'', ''POST'', ''GET'', ''GET'', ''POST''] (snd requests_total)"
    by (simp add: requests_scenario_def requests_total_eval)
  show "provider requests_scenario =
     Some \<lparr>resource = to_resource_attributes default_config,
           buffer = [(new_instrument Counter (BaseMetric_init ''requests_total'' ''Total number of requests'' ''1''),
                        [''method'' \<mapsto> ''GET''], Sum 3),
                     (new_instrument Counter (BaseMetric_init ''requests_total'' ''Total number of requests'' ''1''),
                        [''method'' \<mapsto> ''POST''], Sum 2)],
           callbacks = [], scheduler = Running, handed = []\<rparr>"
    by (subst eq, subst R) (simp add: map_upd_same_key_eq i_kind_new_instrument)
  show "metric_objs requests_scenario = metric_objs (snd requests_total)"
    by (subst eq, subst R) simp
qed


lemma requests_scenario_snapshot:
  "snapshot requests_scenario =
     [(new_instrument Counter (BaseMetric_init ''requests_total'' ''Total number of requests'' ''1''),
         [''method'' \<mapsto> ''GET''], SumPoint 3),
      (new_instrument Counter (BaseMetric_init ''requests_total'' ''Total number of requests'' ''1''),
         [''method'' \<mapsto> ''POST''], SumPoint 2)]"
  by (simp add: snapshot_def requests_scenario_eval)

section \<open>The claims\<close>

text \<open>
  Claim C1. For every sequence of \<^verbatim>\<open>record\<close> calls with non-negative values on a
  counter, interleaved in any way with export ticks and with calls on other attribute sets,
  the sum that the next snapshot reports for a series is the arithmetic sum of all values
  recorded on that series since it was created (the pipeline is set up, the series does not
  exist before the calls, and at least one call records on it). An export does not reset
  the sum: cumulative temporality.
\<close>

theorem counter_sum_cumulative:
  assumes "provider w \<noteq> None"
    and "reported_value (snapshot w) (new_instrument Counter c) a = None"
    and "\<forall>e\<in>set es. nonneg_event e"
    and "recorded es a \<noteq> []"
  shows "reported_value (snapshot (counter_events (CounterMetric_create_instrument c m) es w))
           (new_instrument Counter c) a
         = Some (SumPoint (sum_list (map num_val (recorded es a))))"
  using assms by (rule counter_events_reported(2))

theorem counter_sum_cumulative_witness:
  "provider (snd started) \<noteq> None
   \<and> reported_value (snapshot (snd started)) (new_instrument Counter (BaseMetric_init ''http_requests_total'' ''Total number of HTTP requests'' ''1'')) [''method'' \<mapsto> ''GET''] = None
   \<and> recorded [Record (PInt 1) (Some [''method'' \<mapsto> ''GET'']), Tick, Record (PFloat 2.5) (Some [''method'' \<mapsto> ''GET'']),
         Record (PInt 4) (Some [''method'' \<mapsto> ''POST''])] [''method'' \<mapsto> ''GET''] = [PInt 1, PFloat 2.5]
   \<and> reported_value
        (snapshot (counter_events
           (CounterMetric_create_instrument (BaseMetric_init ''http_requests_total'' ''Total number of HTTP requests'' ''1'') (Meter ''observability.metrics''))
           [Record (PInt 1) (Some [''method'' \<mapsto> ''GET'']), Tick, Record (PFloat 2.5) (Some [''method'' \<mapsto> ''GET'']),
            Record (PInt 4) (Some [''method'' \<mapsto> ''POST''])] (snd started)))
        (new_instrument Counter (BaseMetric_init ''http_requests_total'' ''Total number of HTTP requests'' ''1'')) [''method'' \<mapsto> ''GET'']
      = Some (SumPoint 3.5)"
  using counter_sum_cumulative [of "snd started" "BaseMetric_init ''http_requests_total'' ''Total number of HTTP requests'' ''1''"
     "[''method'' \<mapsto> ''GET'']"
     "[Record (PInt 1) (Some [''method'' \<mapsto> ''GET'']), Tick, Record (PFloat 2.5) (Some [''method'' \<mapsto> ''GET'']),
       Record (PInt 4) (Some [''method'' \<mapsto> ''POST''])]" "Meter ''observability.metrics''"]
  by (simp add: started_eval snapshot_def map_upd_same_key_eq)

text \<open>
  Claim C2. For every counter whose instrument has been created and every negative value,
  \<^verbatim>\<open>record\<close> raises \<^verbatim>\<open>ValueError\<close> (the specification's InvalidValue) and the
  program state after the call is the state before it, so a snapshot taken before equals a
  snapshot taken after; for every \<^verbatim>\<open>CounterMetric\<close> object whatsoever the call raises and
  leaves the state unchanged.
\<close>

theorem counter_record_negative:
  "lt_zero v \<Longrightarrow>
     CounterMetric_record (CounterMetric_create_instrument c m) v attributes w
       = (Some (ValueError ''Counter values must be non-negative''), w)
     \<and> snapshot (snd (CounterMetric_record (CounterMetric_create_instrument c m) v attributes w)) = snapshot w
     \<and> (\<exists>e. CounterMetric_record c' v attributes w = (Some e, w))"
  by (simp add: CounterMetric_record_def CounterMetric_create_instrument_def split: option.splits)

theorem counter_record_negative_witness:
  "lt_zero (PInt (- 1))
   \<and> CounterMetric_record (CounterMetric_create_instrument (BaseMetric_init ''errors_total'' ''Total number of errors'' ''1'') (Meter ''observability.metrics''))
        (PInt (- 1)) (None :: string attributes option) empty_world
      = (Some (ValueError ''Counter values must be non-negative''), empty_world)"
  using counter_record_negative [of "PInt (- 1)" "BaseMetric_init ''errors_total'' ''Total number of errors'' ''1''"
      "Meter ''observability.metrics''" "None :: string attributes option" empty_world]
  by simp

text \<open>
  Claim C3, amended. A gauge has one series, whatever attributes its \<^verbatim>\<open>record\<close> calls
  pass. For every sequence of \<^verbatim>\<open>record\<close> calls through a reference to a gauge object
  whose callback is the only one registered for its instrument (the name was created once,
  and the buffer holds no series of that instrument), the next snapshot reports exactly
  one point for the instrument, with the empty attribute set; its value is \<^verbatim>\<open>float(v)\<close>
  of the value \<open>v\<close> of the most recent call whose conversion returned (every call after it
  raised), however many calls came before and whatever they recorded; it is \<open>v\<close> itself when
  \<open>v\<close> is a float or an int of magnitude at most \<open>2 ^ 53\<close>; and when every call raised it
  is the value before the calls.
\<close>

theorem gauge_last_value:
  assumes "metric_objs w self = Some (GaugeObj g)" and "provider w = Some p"
    and "[cb \<leftarrow> callbacks p. fst cb = i] = [(i, self)]"
    and "[s \<leftarrow> buffer p. fst s = i] = []"
  shows "(py_float v = Inr x \<and> (\<forall>u\<in>set post. \<exists>e. py_float (fst u) = Inl e) \<longrightarrow>
            [r \<leftarrow> snapshot (record_calls self (pre @ (v, a) # post) w). fst r = i] =
              [(i, Map.empty, GaugePoint x)]
            \<and> (representable v \<longrightarrow> x = num_val v))
       \<and> ((\<forall>u\<in>set cs. \<exists>e. py_float (fst u) = Inl e) \<longrightarrow>
            [r \<leftarrow> snapshot (record_calls self cs w). fst r = i] =
              [(i, Map.empty, GaugePoint (current_value g))])"
  using gauge_snapshot [OF assms] gauge_calls_last_returned [of v x post g pre a]
    gauge_calls_all_raise [of cs g] py_float_representable [of v]
  by auto

theorem gauge_last_value_witness:
  "py_float (PInt 7) = Inr 7
   \<and> representable (PInt 7)
   \<and> [r \<leftarrow> snapshot (record_calls 1
          ([(PFloat 5, Some [''location'' \<mapsto> ''sensor_1''])] @
             (PInt 7, Some [''location'' \<mapsto> ''sensor_2'']) # [(PInt (2 ^ 1024), None)])
          (snd queue_gauge)).
        fst r = new_instrument Gauge (GaugeMetric_init ''queue_size'' ''Number of items in processing queue'' ''1'')] =
      [(new_instrument Gauge (GaugeMetric_init ''queue_size'' ''Number of items in processing queue'' ''1''), Map.empty,
        GaugePoint 7)]"
proof -
  have f: "py_float (PInt 7) = Inr 7" by (simp add: float_of_int_exact)
  have o: "\<forall>u\<in>set [(PInt (2 ^ 1024), None :: string attributes option)]. \<exists>e. py_float (fst u) = Inl e"
    by (simp add: float_of_int_overflow del: power_numeral)
  have r: "representable (PInt 7)" by (simp add: representable_def)
  from gauge_last_value [OF queue_gauge_world, THEN conjunct1, rule_format, OF _ _ conjI, OF _ _ f o,
      of "new_instrument Gauge (GaugeMetric_init ''queue_size'' ''Number of items in processing queue'' ''1'')"
         "[(PFloat 5, Some [''location'' \<mapsto> ''sensor_1''])]" "Some [''location'' \<mapsto> ''sensor_2'']"]
  show ?thesis using f r by (simp del: power_numeral)
qed

text \<open>
  Claim C3 as stated fails, twice. \<^verbatim>\<open>record\<close> stores \<^verbatim>\<open>float(value)\<close>: after
  \<^verbatim>\<open>record(2 ** 53 + 1)\<close> the snapshot reports \<open>2 ^ 53\<close>, which is not the value
  passed. And a series is not an attribute set: after \<^verbatim>\<open>record(5, {location: sensor_1})\<close>
  and \<^verbatim>\<open>record(7, {location: sensor_2})\<close> the snapshot holds a single point for the
  gauge, 7 with no attributes, and nothing for \<^verbatim>\<open>sensor_1\<close>, whose most recent value
  was 5.
\<close>

theorem gauge_last_value_counterexample:
  "[r \<leftarrow> snapshot (record_calls 1 [(PFloat 1, None), (PInt 9007199254740993, None)] (snd queue_gauge)).
        fst r = new_instrument Gauge (GaugeMetric_init ''queue_size'' ''Number of items in processing queue'' ''1'')] =
      [(new_instrument Gauge (GaugeMetric_init ''queue_size'' ''Number of items in processing queue'' ''1''), Map.empty,
        GaugePoint 9007199254740992)]
   \<and> num_val (PInt 9007199254740993) \<noteq> 9007199254740992
   \<and> [r \<leftarrow> snapshot (record_calls 1
          [(PFloat 5, Some [''location'' \<mapsto> ''sensor_1'']), (PFloat 7, Some [''location'' \<mapsto> ''sensor_2''])]
          (snd queue_gauge)).
        fst r = new_instrument Gauge (GaugeMetric_init ''queue_size'' ''Number of items in processing queue'' ''1'')] =
      [(new_instrument Gauge (GaugeMetric_init ''queue_size'' ''Number of items in processing queue'' ''1''), Map.empty,
        GaugePoint 7)]"
  using queue_gauge_snapshot [of "[(PFloat 1, None), (PInt 9007199254740993, None)]"]
    queue_gauge_snapshot [of "[(PFloat 5, Some [''location'' \<mapsto> ''sensor_1'']), (PFloat 7, Some [''location'' \<mapsto> ''sensor_2''])]"]
  by (simp add: GaugeMetric_record_def float_of_int_odd)

text \<open>
  Claim C4. Two measurements on the same counter fold into one series when their attribute
  dictionaries are equal (\<^verbatim>\<open>None\<close> counting as the empty dictionary) and form two
  series otherwise; in any state a measurement changes the series of its instrument and
  attribute set and no other; and in the scenario (counter \<^verbatim>\<open>requests_total\<close>, 1 recorded three
  times with \<^verbatim>\<open>{method: GET}\<close> and twice with \<^verbatim>\<open>{method: POST}\<close>) the snapshot
  reports exactly two series, with sums 3 and 2.
\<close>

theorem attribute_set_determines_series:
  "(provider w \<noteq> None \<and> snapshot w = [] \<and> \<not> lt_zero v1 \<and> \<not> lt_zero v2 \<longrightarrow>
      snapshot (snd (CounterMetric_record (CounterMetric_create_instrument c m) v2 a2
            (snd (CounterMetric_record (CounterMetric_create_instrument c m) v1 a1 w)))) =
     (if or_empty a1 = or_empty a2
      then [(new_instrument Counter c, or_empty a1, SumPoint (num_val v1 + num_val v2))]
      else [(new_instrument Counter c, or_empty a1, SumPoint (num_val v1)),
            (new_instrument Counter c, or_empty a2, SumPoint (num_val v2))]))
   \<and> (provider w \<noteq> None \<and> \<not> lt_zero v1 \<longrightarrow>
      series_of (snd (CounterMetric_record (CounterMetric_create_instrument c m) v1 a1 w)) j b =
        (if j = new_instrument Counter c \<and> b = or_empty a1
         then Some (case series_of w j b of None \<Rightarrow> Sum (num_val v1) | Some s \<Rightarrow> fold_agg s (num_val v1))
         else series_of w j b))
   \<and> snapshot requests_scenario =
     [(new_instrument Counter (BaseMetric_init ''requests_total'' ''Total number of requests'' ''1''),
         [''method'' \<mapsto> ''GET''], SumPoint 3),
      (new_instrument Counter (BaseMetric_init ''requests_total'' ''Total number of requests'' ''1''),
         [''method'' \<mapsto> ''POST''], SumPoint 2)]"
proof -
  have "provider w \<noteq> None \<Longrightarrow> \<not> lt_zero v1 \<Longrightarrow>
      series_of (snd (CounterMetric_record (CounterMetric_create_instrument c m) v1 a1 w)) j b =
        (if j = new_instrument Counter c \<and> b = or_empty a1
         then Some (case series_of w j b of None \<Rightarrow> Sum (num_val v1) | Some s \<Rightarrow> fold_agg s (num_val v1))
         else series_of w j b)"
    by (auto simp: counter_record_ok series_of_measure i_kind_new_instrument split: option.splits)
  then show ?thesis
    using two_records [of w v1 v2 c m a2 a1] requests_scenario_snapshot by blast
qed

theorem attribute_set_determines_series_witness:
  "provider (snd started) \<noteq> None \<and> snapshot (snd started) = []
   \<and> snapshot (snd (CounterMetric_record
        (CounterMetric_create_instrument (BaseMetric_init ''errors_total'' ''Total number of errors'' ''1'') (Meter ''observability.metrics''))
        (PInt 2) None
        (snd (CounterMetric_record
          (CounterMetric_create_instrument (BaseMetric_init ''errors_total'' ''Total number of errors'' ''1'') (Meter ''observability.metrics''))
          (PInt 5) (Some [''error_type'' \<mapsto> ''timeout'']) (snd started)))))
     = [(new_instrument Counter (BaseMetric_init ''errors_total'' ''Total number of errors'' ''1''), [''error_type'' \<mapsto> ''timeout''], SumPoint 5),
        (new_instrument Counter (BaseMetric_init ''errors_total'' ''Total number of errors'' ''1''), Map.empty, SumPoint 2)]"
  using attribute_set_determines_series [THEN conjunct1, of "snd started" "PInt 5" "PInt 2"
      "BaseMetric_init ''errors_total'' ''Total number of errors'' ''1''" "Meter ''observability.metrics''"
      None "Some [''error_type'' \<mapsto> ''timeout'']"]
  by (simp add: started_eval snapshot_def)

text \<open>
  Claim C5, amended. On a manager that has been set up, each of the four \<^verbatim>\<open>create_*\<close>
  methods called with a name that is already registered (with whatever kind) raises no
  error: it returns a newly allocated metric object of the requested class, different from
  the registered one, and binds the name to the new object; the object registered before
  is itself unchanged, but the registry no longer refers to it.
\<close>

theorem create_overwrites_registration:
  assumes "meter self = Some m" and "get_metric self w nm = Some old" and "old < next_addr w"
  shows "next_addr w \<noteq> old
    \<and> (fst (create_counter self nm d u w) = Inr (next_addr w)
       \<and> get_metric self (snd (create_counter self nm d u w)) nm = Some (next_addr w)
       \<and> metric_objs (snd (create_counter self nm d u w)) (next_addr w) =
           Some (CounterObj (CounterMetric_create_instrument (BaseMetric_init nm d u) m))
       \<and> metric_objs (snd (create_counter self nm d u w)) old = metric_objs w old)
    \<and> (fst (create_histogram self nm d u w) = Inr (next_addr w)
       \<and> get_metric self (snd (create_histogram self nm d u w)) nm = Some (next_addr w)
       \<and> metric_objs (snd (create_histogram self nm d u w)) (next_addr w) =
           Some (HistogramObj (HistogramMetric_create_instrument (BaseMetric_init nm d u) m))
       \<and> metric_objs (snd (create_histogram self nm d u w)) old = metric_objs w old)
    \<and> (fst (create_gauge self nm d u w) = Inr (next_addr w)
       \<and> get_metric self (snd (create_gauge self nm d u w)) nm = Some (next_addr w)
       \<and> metric_objs (snd (create_gauge self nm d u w)) (next_addr w) =
           Some (GaugeObj ((GaugeMetric_init nm d u)\<lparr>instrument := Some (new_instrument Gauge (GaugeMetric_init nm d u))\<rparr>))
       \<and> metric_objs (snd (create_gauge self nm d u w)) old = metric_objs w old)
    \<and> (fst (create_up_down_counter self nm d u w) = Inr (next_addr w)
       \<and> get_metric self (snd (create_up_down_counter self nm d u w)) nm = Some (next_addr w)
       \<and> metric_objs (snd (create_up_down_counter self nm d u w)) (next_addr w) =
           Some (UpDownCounterObj (UpDownCounterMetric_create_instrument (BaseMetric_init nm d u) m))
       \<and> metric_objs (snd (create_up_down_counter self nm d u w)) old = metric_objs w old)"
proof -
  have ne: "old \<noteq> next_addr w" using assms(3) by simp
  show ?thesis
    using ne
    by (simp add: create_counter_ok [OF assms(1)] create_histogram_ok [OF assms(1)]
      create_gauge_ok [OF assms(1)] create_up_down_counter_ok [OF assms(1)] ne [symmetric])
qed

theorem create_overwrites_registration_witness:
  "meter (fst started) = Some (Meter ''observability.metrics'')
   \<and> get_metric (fst started) (snd queue_gauge) ''queue_size'' = Some 1
   \<and> 1 < next_addr (snd queue_gauge)
   \<and> fst (create_up_down_counter (fst started) ''queue_size'' ''Queue size'' ''1'' (snd queue_gauge)) = Inr 2
   \<and> get_metric (fst started)
        (snd (create_up_down_counter (fst started) ''queue_size'' ''Queue size'' ''1'' (snd queue_gauge))) ''queue_size'' = Some 2"
  using create_overwrites_registration [of "fst started" "Meter ''observability.metrics''" "snd queue_gauge"
      "''queue_size''" 1 "''Queue size''" "''1''"]
  by (simp add: queue_gauge_eval started_fields)

text \<open>
  Claim C5 as stated fails: with a gauge registered as \<^verbatim>\<open>queue_size\<close> (object 1),
  \<^verbatim>\<open>create_counter\<close> with the same name raises nothing, returns a new object (2) and
  re-binds the name to it; \<^verbatim>\<open>create_gauge\<close> with the same name returns a new object
  too, not the registered one.
\<close>

theorem create_duplicate_counterexample:
  "get_metric (fst started) (snd queue_gauge) ''queue_size'' = Some 1
   \<and> fst (create_counter (fst started) ''queue_size'' ''Queue size'' ''1'' (snd queue_gauge)) = Inr 2
   \<and> get_metric (fst started)
        (snd (create_counter (fst started) ''queue_size'' ''Queue size'' ''1'' (snd queue_gauge))) ''queue_size'' = Some 2
   \<and> fst (create_gauge (fst started) ''queue_size'' ''Number of items in processing queue'' ''1'' (snd queue_gauge)) = Inr 2"
  using create_counter_ok(1,2) [of "fst started" "Meter ''observability.metrics''" "''queue_size''" "''Queue size''" "''1''" "snd queue_gauge"]
    create_gauge_ok(1) [of "fst started" "Meter ''observability.metrics''" "''queue_size''" "''Number of items in processing queue''" "''1''" "snd queue_gauge"]
  by (simp add: queue_gauge_eval started_fields)







text \<open>
  Claim C8. Calling \<^verbatim>\<open>shutdown\<close> a second time leaves the whole program state, the
  scheduler and the pipeline included, exactly as the first call left it. The manager
  calls the provider's shutdown each time; the second call is the provider's no-op.
\<close>

theorem shutdown_idempotent: "shutdown self (shutdown self w) = shutdown self w"
  by (simp add: shutdown_def provider_shutdown_idem)

theorem shutdown_idempotent_witness:
  "shutdown (fst started) after_shutdown = after_shutdown"
  using shutdown_idempotent [of "fst started" requests_scenario]
  by (simp add: after_shutdown_def)



text \<open>
  Claim C10. \<^verbatim>\<open>list_metrics\<close> returns a new dictionary object with the entries of the
  registry; for every sequence of insertions, replacements, deletions and clears on the
  returned dictionary, the manager's own dictionary, every lookup through
  \<^verbatim>\<open>get_metric\<close>, every metric object and the pipeline stay as they were.
\<close>

theorem list_metrics_returns_copy:
  assumes "metrics self < next_addr w"
  shows "fst (list_metrics self w) \<noteq> metrics self
     \<and> dict_objs (snd (list_metrics self w)) (fst (list_metrics self w)) = dict_objs w (metrics self)
     \<and> dict_objs (dict_ops (fst (list_metrics self w)) xs (snd (list_metrics self w))) (metrics self)
         = dict_objs w (metrics self)
     \<and> get_metric self (dict_ops (fst (list_metrics self w)) xs (snd (list_metrics self w))) nm
         = get_metric self w nm
     \<and> metric_objs (dict_ops (fst (list_metrics self w)) xs (snd (list_metrics self w))) = metric_objs w
     \<and> provider (dict_ops (fst (list_metrics self w)) xs (snd (list_metrics self w))) = provider w"
proof -
  have ne: "metrics self \<noteq> next_addr w" using assms by simp
  have fr: "fst (list_metrics self w) = next_addr w" by (simp add: list_metrics_def alloc_dict_def)
  have d: "dict_objs (snd (list_metrics self w)) (metrics self) = dict_objs w (metrics self)"
    using ne by (simp add: list_metrics_def alloc_dict_def)
  have m: "metric_objs (snd (list_metrics self w)) = metric_objs w"
    "provider (snd (list_metrics self w)) = provider w"
    by (simp_all add: list_metrics_def alloc_dict_def)
  show ?thesis
    using ne d m dict_ops_frame [of "next_addr w" xs "snd (list_metrics self w)"]
    by (simp add: fr get_metric_def) (simp add: list_metrics_def alloc_dict_def)
qed

theorem list_metrics_returns_copy_witness:
  "metrics (fst started) < next_addr (snd requests_total)
   \<and> get_metric (fst started) (snd requests_total) ''requests_total'' = Some 1
   \<and> get_metric (fst started)
       (dict_ops (fst (list_metrics (fst started) (snd requests_total)))
          [DelItem ''requests_total'', SetItem ''other'' 7, Clear]
          (snd (list_metrics (fst started) (snd requests_total)))) ''requests_total'' = Some 1"
proof -
  have n: "next_addr (snd requests_total) = 2" "get_metric (fst started) (snd requests_total) ''requests_total'' = Some 1"
    using create_counter_ok(2) [of "fst started" "Meter ''observability.metrics''" "''requests_total''"
       "''Total number of requests''" "''1''" "snd started"]
    by (simp_all add: requests_total_def create_counter_def alloc_metric_def get_meter_def started_fields
        started_eval(2-) store_metric_def dict_setitem_def)
  show ?thesis
    using list_metrics_returns_copy [of "fst started" "snd requests_total"
       "[DelItem ''requests_total'', SetItem ''other'' 7, Clear]" "''requests_total''"]
    by (simp add: n started_fields)
qed

end
